theory Spec2Isabelle
  imports Complex_Main "HOL-Library.Multiset"
begin

section \<open>Strings\<close>

text \<open>
  A Python \<open>str\<close> is a sequence of Unicode code points; it is modelled as the list of
  its code points. \<open>isspace\<close> is the set of code points that \<open>str.strip()\<close> removes
  (the characters for which \<open>str.isspace\<close> holds).
\<close>

type_synonym pystr = "nat list"

definition isspace :: "nat \<Rightarrow> bool" where
  "isspace c \<longleftrightarrow>
     (9 \<le> c \<and> c \<le> 13) \<or> (28 \<le> c \<and> c \<le> 32) \<or> c = 133 \<or> c = 160 \<or> c = 5760 \<or>
     (8192 \<le> c \<and> c \<le> 8202) \<or> c = 8232 \<or> c = 8233 \<or> c = 8239 \<or> c = 8287 \<or> c = 12288"

definition strip :: "pystr \<Rightarrow> pystr" where
  "strip s = rev (dropWhile isspace (rev (dropWhile isspace s)))"

text \<open>An ASCII literal of the source, as code points.\<close>

definition ascii :: "string \<Rightarrow> pystr" where
  "ascii s = map of_char s"

text \<open>The fixed messages of the source (the Chinese ones by their code points).\<close>

definition msg_empty_fields :: pystr where
  "msg_empty_fields = [29992, 25143, 21517, 25110, 23494, 30721, 19981, 33021, 20026, 31354]"

definition msg_username_taken :: pystr where
  "msg_username_taken = [35813, 29992, 25143, 21517, 24050, 34987, 27880, 20876]"

definition msg_unknown_user :: pystr where
  "msg_unknown_user = [29992, 25143, 21517, 19981, 23384, 22312]"

definition msg_wrong_password :: pystr where
  "msg_wrong_password = [23494, 30721, 38169, 35823]"

definition msg_not_logged_in :: pystr where
  "msg_not_logged_in =
     [26410, 30331, 24405, 65292, 26080, 27861, 35775, 38382, 27492, 25509, 21475]"

definition msg_empty_message :: pystr where
  "msg_empty_message = ascii ''message cannot be empty''"

section \<open>Database models\<close>

text \<open>
  \<open>datetime\<close> values are points on a linear time axis (microseconds since the epoch).
  The fields of the two models carry a prefix, since both have \<open>id\<close> and \<open>created_at\<close>:
  \<open>u_\<close> for \<open>User\<close>, \<open>c_\<close> for \<open>ChatRecord\<close>.
\<close>

type_synonym datetime = int

record user =
  u_id :: int
  u_username :: pystr
  u_password_hash :: pystr
  u_created_at :: datetime

record chat_record =
  c_id :: int
  c_user_id :: int
  c_question :: pystr
  c_answer :: pystr
  c_created_at :: datetime

text \<open>The two tables, each as the list of its rows in insertion order.\<close>

record database =
  users :: "user list"
  chat_records :: "chat_record list"

text \<open>
  \<open>primary_key=True, autoincrement=True\<close>: a new row gets an id above every id of the
  table (rows are never deleted), starting from 1.
\<close>

definition next_id :: "int list \<Rightarrow> int" where
  "next_id ids = fold max ids 0 + 1"

section \<open>Session, requests and responses\<close>

text \<open>
  The Flask session is a dictionary in which the application writes three keys only,
  \<open>logged_in\<close>, \<open>username\<close> and \<open>user_id\<close>; \<open>None\<close> is an absent key.
\<close>

record session =
  s_logged_in :: "bool option"
  s_username :: "pystr option"
  s_user_id :: "int option"

text \<open>\<open>session.get("logged_in")\<close> taken as a condition.\<close>

definition logged_in :: "session \<Rightarrow> bool" where
  "logged_in s \<longleftrightarrow> s_logged_in s = Some True"

text \<open>\<open>session.clear()\<close>\<close>

definition session_clear :: session where
  "session_clear = \<lparr>s_logged_in = None, s_username = None, s_user_id = None\<rparr>"

datatype http_method = GET | POST

text \<open>\<open>request.form\<close>: a field is \<open>None\<close> when the form does not have it.\<close>

record form =
  f_username :: "pystr option"
  f_password :: "pystr option"

text \<open>\<open>not x\<close> for \<open>x = request.form.get(...)\<close>: \<open>None\<close> and the empty string are falsy.\<close>

definition falsy :: "pystr option \<Rightarrow> bool" where
  "falsy x \<longleftrightarrow> (case x of None \<Rightarrow> True | Some v \<Rightarrow> v = [])"

text \<open>
  The body of a \<open>/chat\<close> request. \<open>request.get_json()\<close> either raises (a body whose
  content type is not JSON, or a JSON body that does not parse), or returns a value
  that is not a dictionary, or a dictionary, of which only the key \<open>message\<close> is read:
  absent, a string, or a value of another type.
\<close>

datatype json_message = Msg_absent | Msg_str pystr | Msg_other

datatype payload = Not_json | Bad_json | Json_other | Json_dict json_message

text \<open>\<open>request.args.get(key, default, type=int)\<close>: \<open>None\<close> is a parameter that is
  absent or is not an integer.\<close>

record query_args =
  arg_page :: "int option"
  arg_size :: "int option"

definition args_get :: "int option \<Rightarrow> int \<Rightarrow> int" where
  "args_get a d = (case a of None \<Rightarrow> d | Some v \<Rightarrow> v)"

datatype template =
    Index_html bool "pystr option"
  | Register_html
  | Login_html

datatype endpoint = To_index | To_login

record history_item =
  h_id :: int
  h_question :: pystr
  h_answer :: pystr
  h_created_at :: pystr

record history_page =
  hp_records :: "history_item list"
  hp_total :: int
  hp_total_pages :: int
  hp_current_page :: int
  hp_page_size :: int

datatype body =
    Render template
  | Redirect endpoint
  | Text pystr
  | Json_error pystr
  | Json_reply pystr
  | Json_history history_page

text \<open>A response is its body and its HTTP status.\<close>

type_synonym response = "body \<times> nat"

text \<open>
  Exceptions that leave a handler uncaught: the two HTTP errors of \<open>get_json\<close> (415
  and 400), and the Python exceptions, which the framework turns into a 500.
\<close>

datatype exn =
    Unsupported_media_type
  | Bad_request
  | Attribute_error
  | Key_error pystr
  | Zero_division_error
  | Overflow_error
  | Value_error pystr

section \<open>Index, register, login, logout\<close>

definition index :: "session \<Rightarrow> response" where
  "index s =
     (if logged_in s then (Render (Index_html True (s_username s)), 200)
      else (Render (Index_html False None), 200))"

text \<open>\<open>User.query.filter_by(username=username).first()\<close>\<close>

definition user_by_name :: "database \<Rightarrow> pystr \<Rightarrow> user option" where
  "user_by_name db name = find (\<lambda>u. u_username u = name) (users db)"

text \<open>
  \<open>hashpw\<close> is the outcome of lines 90 and 91 on the password: \<open>bcrypt.hashpw\<close> with
  the salt that \<open>bcrypt.gensalt()\<close> drew for this call either raises (a password that
  the library refuses, such as one longer than 72 bytes) or yields the hash; nothing
  catches the exception, and no row is added then. \<open>now\<close> is the clock reading that
  \<open>created_at\<close> defaults to. After the guard on empty fields both form fields are
  strings; the last branch of the \<open>case\<close> only completes the pattern match and is
  never taken.
\<close>

definition register :: "(pystr \<Rightarrow> exn + pystr) \<Rightarrow> datetime \<Rightarrow> http_method \<Rightarrow> form
    \<Rightarrow> database \<Rightarrow> database \<times> (exn + response)" where
  "register hashpw now m f db =
     (if m = GET then (db, Inr (Render Register_html, 200))
      else if falsy (f_username f) \<or> falsy (f_password f)
        then (db, Inr (Text msg_empty_fields, 400))
      else
        (case (f_username f, f_password f) of
           (Some username, Some password) \<Rightarrow>
             (case user_by_name db username of
                Some existing_user \<Rightarrow> (db, Inr (Text msg_username_taken, 400))
              | None \<Rightarrow>
                  (case hashpw password of
                     Inl e \<Rightarrow> (db, Inl e)
                   | Inr hashed \<Rightarrow>
                       (let new_user = \<lparr>u_id = next_id (map u_id (users db)),
                                       u_username = username,
                                       u_password_hash = hashed,
                                       u_created_at = now\<rparr>
                        in (db\<lparr>users := users db @ [new_user]\<rparr>,
                            Inr (Redirect To_login, 302)))))
         | _ \<Rightarrow> (db, Inr (Text msg_empty_fields, 400))))"

text \<open>
  \<open>checkpw\<close> is the outcome of \<open>bcrypt.checkpw\<close> on the password and the stored hash
  (line 118): it raises (a password that the library refuses, such as one longer than
  72 bytes, or a stored value that is not a hash), or returns whether the password
  matches. Nothing catches the exception, and the session is not written then.
\<close>

definition login :: "(pystr \<Rightarrow> pystr \<Rightarrow> exn + bool) \<Rightarrow> http_method \<Rightarrow> form \<Rightarrow> session
    \<Rightarrow> database \<Rightarrow> session \<times> (exn + response)" where
  "login checkpw m f s db =
     (if m = GET then
        (if logged_in s then (s, Inr (Redirect To_index, 302))
         else (s, Inr (Render Login_html, 200)))
      else if falsy (f_username f) \<or> falsy (f_password f)
        then (s, Inr (Text msg_empty_fields, 400))
      else
        (case (f_username f, f_password f) of
           (Some username, Some password) \<Rightarrow>
             (case user_by_name db username of
                None \<Rightarrow> (s, Inr (Text msg_unknown_user, 400))
              | Some u \<Rightarrow>
                  (case checkpw password (u_password_hash u) of
                     Inl e \<Rightarrow> (s, Inl e)
                   | Inr True \<Rightarrow>
                       (s\<lparr>s_logged_in := Some True,
                          s_username := Some (u_username u),
                          s_user_id := Some (u_id u)\<rparr>, Inr (Redirect To_index, 302))
                   | Inr False \<Rightarrow> (s, Inr (Text msg_wrong_password, 401))))
         | _ \<Rightarrow> (s, Inr (Text msg_empty_fields, 400))))"

definition logout :: "session \<Rightarrow> session \<times> response" where
  "logout s = (session_clear, (Redirect To_index, 302))"

section \<open>Chat\<close>

text \<open>
  The outcome of lines 150 to 154 up to the reply's \<open>strip()\<close>: the completion call and
  the reading of \<open>response.choices[0].message.content\<close> either raise an exception, given
  by its \<open>str\<close>, or yield the content.
\<close>

datatype upstream = Api_raises pystr | Api_content pystr

text \<open>The outcome of \<open>db.session.add(record); db.session.commit()\<close>: a commit that raises
  (given by the exception's \<open>str\<close>) leaves the table as it was.\<close>

datatype commit = Committed | Commit_raises pystr

text \<open>\<open>str(KeyError('user_id'))\<close>, the quotes included.\<close>

definition msg_key_error_user_id :: pystr where
  "msg_key_error_user_id = [39] @ ascii ''user_id'' @ [39]"

text \<open>
  The handler returns the database, the list of the prompts sent to the completion
  API, and either an uncaught exception or the response.
\<close>

definition chat :: "(pystr \<Rightarrow> upstream) \<Rightarrow> commit \<Rightarrow> datetime \<Rightarrow> session \<Rightarrow> payload
    \<Rightarrow> database \<Rightarrow> database \<times> pystr list \<times> (exn + response)" where
  "chat completion commit now s p db =
     (if \<not> logged_in s then (db, [], Inr (Json_error msg_not_logged_in, 401))
      else
        (case p of
           Not_json \<Rightarrow> (db, [], Inl Unsupported_media_type)
         | Bad_json \<Rightarrow> (db, [], Inl Bad_request)
         | Json_other \<Rightarrow> (db, [], Inl Attribute_error)
         | Json_dict Msg_other \<Rightarrow> (db, [], Inl Attribute_error)
         | Json_dict m \<Rightarrow>
             (let user_message = strip (case m of Msg_str t \<Rightarrow> t | _ \<Rightarrow> [])
              in if user_message = [] then (db, [], Inr (Json_error msg_empty_message, 400))
                 else
                   (case completion user_message of
                      Api_raises e \<Rightarrow> (db, [user_message], Inr (Json_error e, 500))
                    | Api_content content \<Rightarrow>
                        (let reply = strip content
                         in case s_user_id s of
                              None \<Rightarrow>
                                (db, [user_message], Inr (Json_error msg_key_error_user_id, 500))
                            | Some user_id \<Rightarrow>
                                (let record = \<lparr>c_id = next_id (map c_id (chat_records db)),
                                               c_user_id = user_id,
                                               c_question = user_message,
                                               c_answer = reply,
                                               c_created_at = now\<rparr>
                                 in case commit of
                                      Commit_raises e \<Rightarrow>
                                        (db, [user_message], Inr (Json_error e, 500))
                                    | Committed \<Rightarrow>
                                        (db\<lparr>chat_records := chat_records db @ [record]\<rparr>,
                                         [user_message], Inr (Json_reply reply, 200))))))))"

section \<open>History\<close>

text \<open>
  The query engine, on the rows of a table as a list. \<open>ORDER BY created_at DESC\<close>
  is a sort on the key; rows with the same \<open>created_at\<close> stay in table order (the
  engine promises no order among them). The values of \<open>OFFSET\<close> and \<open>LIMIT\<close> are
  bound as parameters of the statement: a Python integer outside the signed 64-bit
  range of the engine makes the execution raise OverflowError, which nothing catches.
  In range, \<open>OFFSET\<close> with a negative value skips nothing and \<open>LIMIT\<close> with a negative
  value is no limit, as in SQLite, the engine the source configures.
\<close>

definition order_by_created_at_desc :: "chat_record list \<Rightarrow> chat_record list" where
  "order_by_created_at_desc rows = sort_key (\<lambda>r. - c_created_at r) rows"

definition sqlite_int :: "int \<Rightarrow> bool" where
  "sqlite_int n \<longleftrightarrow> - (2 ^ 63) \<le> n \<and> n < 2 ^ 63"

definition sql_offset :: "int \<Rightarrow> 'a list \<Rightarrow> exn + 'a list" where
  "sql_offset n rows = (if sqlite_int n then Inr (drop (nat n) rows) else Inl Overflow_error)"

definition sql_limit :: "int \<Rightarrow> 'a list \<Rightarrow> exn + 'a list" where
  "sql_limit n rows =
     (if \<not> sqlite_int n then Inl Overflow_error
      else if n < 0 then Inr rows
      else Inr (take (nat n) rows))"

text \<open>\<open>ChatRecord.query.filter_by(user_id=user_id).order_by(ChatRecord.created_at.desc())\<close>\<close>

definition history_query :: "database \<Rightarrow> int \<Rightarrow> chat_record list" where
  "history_query db user_id =
     order_by_created_at_desc (filter (\<lambda>r. c_user_id r = user_id) (chat_records db))"

text \<open>\<open>query.offset((page - 1) * size).limit(size).all()\<close>\<close>

definition history_records :: "database \<Rightarrow> int \<Rightarrow> int \<Rightarrow> int \<Rightarrow> exn + chat_record list" where
  "history_records db user_id page size' =
     (case sql_offset ((page - 1) * size') (history_query db user_id) of
        Inl e \<Rightarrow> Inl e
      | Inr rows \<Rightarrow> sql_limit size' rows)"

text \<open>The dictionary appended to \<open>data\<close> for a row; \<open>strftime\<close> renders \<open>created_at\<close>
  in the format \<open>%Y-%m-%d %H:%M:%S\<close>.\<close>

definition record_dict :: "(datetime \<Rightarrow> pystr) \<Rightarrow> chat_record \<Rightarrow> history_item" where
  "record_dict strftime r =
     \<lparr>h_id = c_id r, h_question = c_question r, h_answer = c_answer r,
      h_created_at = strftime (c_created_at r)\<rparr>"

text \<open>
  \<open>ceil(total / size)\<close>: the true division raises on a zero divisor. The quotient is a
  float in the source and a real number here; the two ceilings agree as long as the
  row count is below \<open>2 ^ 52\<close>.
\<close>

definition ceil_div :: "int \<Rightarrow> int \<Rightarrow> exn + int" where
  "ceil_div total' size' =
     (if size' = 0 then Inl Zero_division_error
      else Inr \<lceil>real_of_int total' / real_of_int size'\<rceil>)"

definition get_chat_history :: "(datetime \<Rightarrow> pystr) \<Rightarrow> session \<Rightarrow> query_args \<Rightarrow> database
    \<Rightarrow> exn + response" where
  "get_chat_history strftime s args db =
     (if \<not> logged_in s then Inr (Json_error msg_not_logged_in, 401)
      else
        (let page = args_get (arg_page args) 1;
             size' = args_get (arg_size args) 10
         in case s_user_id s of
              None \<Rightarrow> Inl (Key_error (ascii ''user_id''))
            | Some user_id \<Rightarrow>
                (let total' = int (length (history_query db user_id))
                 in case history_records db user_id page size' of
                      Inl e \<Rightarrow> Inl e
                    | Inr records \<Rightarrow>
                        (let data = map (record_dict strftime) records
                         in case ceil_div total' size' of
                              Inl e \<Rightarrow> Inl e
                            | Inr total_pages \<Rightarrow>
                                Inr (Json_history \<lparr>hp_records = data,
                                                   hp_total = total',
                                                   hp_total_pages = total_pages,
                                                   hp_current_page = page,
                                                   hp_page_size = size'\<rparr>, 200)))))"

section \<open>Properties of strip\<close>

lemma all_dropWhile_iff: "(\<forall>x\<in>set (dropWhile P xs). P x) \<longleftrightarrow> (\<forall>x\<in>set xs. P x)"
  by (induction xs) auto

lemma strip_empty_iff: "strip s = [] \<longleftrightarrow> (\<forall>c\<in>set s. isspace c)"
  by (simp add: strip_def all_dropWhile_iff)

lemma strip_Nil: "strip [] = []"
  by (simp add: strip_def)

section \<open>Chat: the guards\<close>

text \<open>
  C8. A request to \<open>/chat\<close> from a session whose \<open>logged_in\<close> flag is absent or false is
  answered with 401 whatever the payload is; the database is returned as it was (no
  ChatRecord is created) and no prompt is sent to the completion API.
\<close>

theorem chat_requires_login:
  assumes "s_logged_in s = None \<or> s_logged_in s = Some False"
  shows "chat completion commit now s p db = (db, [], Inr (Json_error msg_not_logged_in, 401))"
  using assms by (auto simp: chat_def logged_in_def)

theorem chat_requires_login_witness:
  "chat Api_content Committed 7 session_clear (Json_dict (Msg_str [104, 105]))
     \<lparr>users = [], chat_records = []\<rparr>
   = (\<lparr>users = [], chat_records = []\<rparr>, [], Inr (Json_error msg_not_logged_in, 401))"
  using chat_requires_login [of session_clear Api_content Committed 7
      "Json_dict (Msg_str [104, 105])" "\<lparr>users = [], chat_records = []\<rparr>"]
  by (simp add: session_clear_def)

text \<open>
  C7. For an authenticated session and a message that is empty (or absent) or made of
  whitespace only, \<open>/chat\<close> answers 400, the database is unchanged and the list of
  prompts sent to the completion API is empty.
\<close>

theorem chat_empty_message:
  assumes "logged_in s"
    and "m = Msg_absent \<or> (\<exists>t. m = Msg_str t \<and> (\<forall>c\<in>set t. isspace c))"
  shows "chat completion commit now s (Json_dict m) db
         = (db, [], Inr (Json_error msg_empty_message, 400))"
  using assms by (auto simp: chat_def strip_empty_iff strip_Nil)

theorem chat_empty_message_witness:
  "chat Api_content Committed 7
     \<lparr>s_logged_in = Some True, s_username = Some [97], s_user_id = Some 1\<rparr>
     (Json_dict (Msg_str [32, 9, 10, 12288])) \<lparr>users = [], chat_records = []\<rparr>
   = (\<lparr>users = [], chat_records = []\<rparr>, [], Inr (Json_error msg_empty_message, 400))"
  using chat_empty_message
    [of "\<lparr>s_logged_in = Some True, s_username = Some [97], s_user_id = Some 1\<rparr>"
      "Msg_str [32, 9, 10, 12288]" Api_content Committed 7 "\<lparr>users = [], chat_records = []\<rparr>"]
  by (simp add: logged_in_def isspace_def)

section \<open>Chat: the completion call and the insert\<close>

text \<open>
  C1 (as amended). For an authenticated session with user id \<open>uid\<close> and a message
  whose trimmed form is not empty, when the completion call yields a content and the
  commit succeeds, \<open>/chat\<close> appends exactly one ChatRecord to the table, with
  \<open>question\<close> the trimmed message, \<open>user_id = uid\<close> and \<open>answer\<close> the trimmed reply,
  sends the trimmed message upstream once, and returns the trimmed reply.
\<close>

theorem chat_success:
  assumes "logged_in s" and "s_user_id s = Some uid" and "strip msg \<noteq> []"
    and "completion (strip msg) = Api_content content"
  shows "chat completion Committed now s (Json_dict (Msg_str msg)) db
         = (db\<lparr>chat_records := chat_records db @
                 [\<lparr>c_id = next_id (map c_id (chat_records db)), c_user_id = uid,
                   c_question = strip msg, c_answer = strip content, c_created_at = now\<rparr>]\<rparr>,
            [strip msg], Inr (Json_reply (strip content), 200))"
  using assms by (simp add: chat_def Let_def)

theorem chat_success_witness:
  "chat Api_content Committed 7
     \<lparr>s_logged_in = Some True, s_username = Some [97], s_user_id = Some 1\<rparr>
     (Json_dict (Msg_str [32, 104, 105, 10])) \<lparr>users = [], chat_records = []\<rparr>
   = (\<lparr>users = [], chat_records =
         [\<lparr>c_id = 1, c_user_id = 1, c_question = [104, 105], c_answer = [104, 105],
           c_created_at = 7\<rparr>]\<rparr>,
      [[104, 105]], Inr (Json_reply [104, 105], 200))"
  using chat_success
    [of "\<lparr>s_logged_in = Some True, s_username = Some [97], s_user_id = Some 1\<rparr>" 1
      "[32, 104, 105, 10]" Api_content "[104, 105]" 7 "\<lparr>users = [], chat_records = []\<rparr>"]
  by (simp add: logged_in_def strip_def isspace_def next_id_def)

text \<open>
  The claim as stated, with the success of the completion call as its only condition,
  fails when the commit raises: the reply is not returned and no record is created.
\<close>

theorem chat_success_counterexample:
  "logged_in \<lparr>s_logged_in = Some True, s_username = Some [97], s_user_id = Some 1\<rparr>
   \<and> strip [104, 105] = [104, 105]
   \<and> chat Api_content (Commit_raises [101, 114, 114]) 7
        \<lparr>s_logged_in = Some True, s_username = Some [97], s_user_id = Some 1\<rparr>
        (Json_dict (Msg_str [104, 105])) \<lparr>users = [], chat_records = []\<rparr>
      = (\<lparr>users = [], chat_records = []\<rparr>, [[104, 105]],
         Inr (Json_error [101, 114, 114], 500))"
  by (simp add: chat_def logged_in_def strip_def isspace_def Let_def)

text \<open>
  C10. The \<open>try\<close> block also holds the insert and the commit: when the completion
  call has returned a reply and the commit raises, \<open>/chat\<close> answers 500 with the
  exception's \<open>str\<close>, and the reply is not in the response.
\<close>

theorem chat_commit_failure:
  assumes "logged_in s" and "s_user_id s = Some uid" and "strip msg \<noteq> []"
    and "completion (strip msg) = Api_content content"
  shows "chat completion (Commit_raises e) now s (Json_dict (Msg_str msg)) db
         = (db, [strip msg], Inr (Json_error e, 500))"
  using assms by (simp add: chat_def Let_def)

theorem chat_commit_failure_witness:
  "chat Api_content (Commit_raises [108, 111, 99, 107]) 7
     \<lparr>s_logged_in = Some True, s_username = Some [97], s_user_id = Some 1\<rparr>
     (Json_dict (Msg_str [104, 105, 32])) \<lparr>users = [], chat_records = []\<rparr>
   = (\<lparr>users = [], chat_records = []\<rparr>, [[104, 105]],
      Inr (Json_error [108, 111, 99, 107], 500))"
  using chat_commit_failure
    [of "\<lparr>s_logged_in = Some True, s_username = Some [97], s_user_id = Some 1\<rparr>" 1
      "[104, 105, 32]" Api_content "[104, 105]" "[108, 111, 99, 107]" 7
      "\<lparr>users = [], chat_records = []\<rparr>"]
  by (simp add: logged_in_def strip_def isspace_def)

section \<open>History: page size zero\<close>

text \<open>
  C9. For an authenticated request to \<open>/history\<close> with \<open>size=0\<close> the offset/limit
  query succeeds (with no rows), and the handler then fails in its own arithmetic:
  \<open>ceil(total / size)\<close> raises ZeroDivisionError, which nothing catches.
\<close>

theorem history_size_zero:
  assumes "logged_in s" and "s_user_id s = Some uid" and "arg_size args = Some 0"
  shows "history_records db uid (args_get (arg_page args) 1) 0 = Inr []
         \<and> get_chat_history strftime s args db = Inl Zero_division_error"
  using assms
  by (simp add: get_chat_history_def history_records_def sql_limit_def sql_offset_def
      sqlite_int_def ceil_div_def args_get_def Let_def)

theorem history_size_zero_witness:
  "get_chat_history (replicate 1 \<circ> nat)
     \<lparr>s_logged_in = Some True, s_username = Some [97], s_user_id = Some 1\<rparr>
     \<lparr>arg_page = Some 1, arg_size = Some 0\<rparr>
     \<lparr>users = [], chat_records =
        [\<lparr>c_id = 1, c_user_id = 1, c_question = [104], c_answer = [105], c_created_at = 7\<rparr>]\<rparr>
   = Inl Zero_division_error"
  using history_size_zero
    [of "\<lparr>s_logged_in = Some True, s_username = Some [97], s_user_id = Some 1\<rparr>" 1
      "\<lparr>arg_page = Some 1, arg_size = Some 0\<rparr>"
      "\<lparr>users = [], chat_records =
        [\<lparr>c_id = 1, c_user_id = 1, c_question = [104], c_answer = [105], c_created_at = 7\<rparr>]\<rparr>"
      "replicate 1 \<circ> nat"]
  by (simp add: logged_in_def)

section \<open>The credential store\<close>

text \<open>
  The \<open>username\<close> column is unique: in a table with distinct usernames the lookup by
  a stored user's name finds that user, and exactly one row has that name.
\<close>

lemma find_distinct_key:
  "x \<in> set xs \<Longrightarrow> distinct (map k xs) \<Longrightarrow> find (\<lambda>y. k y = k x) xs = Some x"
  by (induction xs) (auto simp: image_iff)

lemma count_distinct_key:
  "x \<in> set xs \<Longrightarrow> distinct (map k xs) \<Longrightarrow> length (filter (\<lambda>y. k y = k x) xs) = 1"
proof (induction xs)
  case Nil
  then show ?case by simp
next
  case (Cons a xs)
  show ?case
  proof (cases "a = x")
    case True
    with Cons.prems have "\<forall>y\<in>set xs. k y \<noteq> k x" by (auto simp: image_iff)
    then have "filter (\<lambda>y. k y = k x) xs = []" by (simp add: filter_empty_conv)
    with True show ?thesis by simp
  next
    case False
    with Cons.prems have "x \<in> set xs" and "distinct (map k xs)" and "k a \<noteq> k x"
      by (auto simp: image_iff)
    with Cons.IH show ?thesis by simp
  qed
qed

lemma user_by_name_stored:
  "u \<in> set (users db) \<Longrightarrow> distinct (map u_username (users db))
   \<Longrightarrow> user_by_name db (u_username u) = Some u"
  by (simp add: user_by_name_def find_distinct_key)

lemma user_by_name_None:
  "user_by_name db name = None \<longleftrightarrow> name \<notin> u_username ` set (users db)"
  by (auto simp: user_by_name_def find_None_iff)

lemma register_new_username:
  assumes "name \<noteq> []" and "pw \<noteq> []" and "name \<notin> u_username ` set (users db)"
    and "hashpw pw = Inr hashed"
  shows "register hashpw now POST \<lparr>f_username = Some name, f_password = Some pw\<rparr> db
         = (db\<lparr>users := users db @
                 [\<lparr>u_id = next_id (map u_id (users db)), u_username = name,
                   u_password_hash = hashed, u_created_at = now\<rparr>]\<rparr>,
            Inr (Redirect To_login, 302))"
  using assms by (simp add: register_def falsy_def Let_def user_by_name_None [symmetric])

lemma register_hashpw_raises:
  assumes "name \<noteq> []" and "pw \<noteq> []" and "name \<notin> u_username ` set (users db)"
    and "hashpw pw = Inl e"
  shows "register hashpw now POST \<lparr>f_username = Some name, f_password = Some pw\<rparr> db
         = (db, Inl e)"
  using assms by (simp add: register_def falsy_def user_by_name_None [symmetric])

lemma register_keeps_usernames_distinct:
  assumes "distinct (map u_username (users db))"
  shows "distinct (map u_username (users (fst (register hashpw now m f db))))"
  using assms
  by (auto simp: register_def falsy_def Let_def user_by_name_None
      split: option.splits sum.splits)

lemma register_keeps_usernames_nonempty:
  assumes "[] \<notin> u_username ` set (users db)"
  shows "[] \<notin> u_username ` set (users (fst (register hashpw now m f db)))"
  using assms
  by (auto simp: register_def falsy_def Let_def split: option.splits sum.splits)

text \<open>
  A session written by \<open>login\<close> and \<open>logout\<close> only has a user id whenever it is logged
  in, which is what the handlers behind the login check rely on.
\<close>

lemma login_keeps_user_id:
  assumes "logged_in s \<longrightarrow> s_user_id s \<noteq> None"
  shows "logged_in (fst (login checkpw m f s db))
         \<longrightarrow> s_user_id (fst (login checkpw m f s db)) \<noteq> None"
  using assms
  by (auto simp: login_def falsy_def logged_in_def
      split: option.splits sum.splits bool.splits)

lemma logout_not_logged_in: "\<not> logged_in (fst (logout s))"
  by (simp add: logout_def session_clear_def logged_in_def)

text \<open>
  C6 (as amended). For a username already in the credential store (the usernames of
  the store being unique), a further register attempt with that username answers 400
  and inserts no row, so that exactly one User row with that username exists afterwards. The body is the conflict message when the
  submitted username and password are both non-empty, and the message of the guard on
  empty fields otherwise.
\<close>

theorem register_existing_username:
  assumes "u \<in> set (users db)" and "distinct (map u_username (users db))"
    and "f_username f = Some (u_username u)"
  shows "register hashpw now POST f db
         = (db, Inr (Text (if u_username u = [] \<or> falsy (f_password f)
                          then msg_empty_fields else msg_username_taken), 400))
         \<and> length (filter (\<lambda>x. u_username x = u_username u)
              (users (fst (register hashpw now POST f db)))) = 1"
proof -
  have found: "user_by_name db (u_username u) = Some u"
    using assms(1,2) by (rule user_by_name_stored)
  have response: "register hashpw now POST f db
      = (db, Inr (Text (if u_username u = [] \<or> falsy (f_password f)
                       then msg_empty_fields else msg_username_taken), 400))"
  proof (cases "u_username u = [] \<or> falsy (f_password f)")
    case True
    then show ?thesis
      using assms(3) by (auto simp: register_def falsy_def)
  next
    case False
    then obtain pw where "f_password f = Some pw" and "pw \<noteq> []" and "u_username u \<noteq> []"
      by (cases "f_password f") (simp_all add: falsy_def)
    then show ?thesis
      using found assms(3) by (simp add: register_def falsy_def)
  qed
  have "length (filter (\<lambda>x. u_username x = u_username u) (users db)) = 1"
    using assms(1,2) by (rule count_distinct_key)
  with response show ?thesis by simp
qed

theorem register_existing_username_witness:
  "register Inr 9 POST \<lparr>f_username = Some [97], f_password = Some [120]\<rparr>
     (fst (register Inr 7 POST \<lparr>f_username = Some [97], f_password = Some [112]\<rparr>
        \<lparr>users = [], chat_records = []\<rparr>))
   = (\<lparr>users = [\<lparr>u_id = 1, u_username = [97], u_password_hash = [112], u_created_at = 7\<rparr>],
       chat_records = []\<rparr>, Inr (Text msg_username_taken, 400))
   \<and> length (filter (\<lambda>x. u_username x = [97])
        (users (fst (register Inr 9 POST \<lparr>f_username = Some [97], f_password = Some [120]\<rparr>
          (fst (register Inr 7 POST \<lparr>f_username = Some [97], f_password = Some [112]\<rparr>
             \<lparr>users = [], chat_records = []\<rparr>)))))) = 1"
proof -
  have first: "fst (register Inr 7 POST \<lparr>f_username = Some [97], f_password = Some [112]\<rparr>
        \<lparr>users = [], chat_records = []\<rparr>)
      = \<lparr>users = [\<lparr>u_id = 1, u_username = [97], u_password_hash = [112], u_created_at = 7\<rparr>],
         chat_records = []\<rparr>"
    by (simp add: register_new_username next_id_def)
  show ?thesis
    unfolding first
    using register_existing_username
      [of "\<lparr>u_id = 1, u_username = [97], u_password_hash = [112], u_created_at = 7\<rparr>"
        "\<lparr>users = [\<lparr>u_id = 1, u_username = [97], u_password_hash = [112],
            u_created_at = 7\<rparr>], chat_records = []\<rparr>"
        "\<lparr>f_username = Some [97], f_password = Some [120]\<rparr>" Inr 9]
    by (simp add: falsy_def)
qed

text \<open>
  The claim as stated promises the conflict response for every further attempt with a
  stored username; an attempt with an empty password is answered by the guard on empty
  fields, which runs before the lookup, with another body.
\<close>

theorem register_existing_username_counterexample:
  "register Inr 9 POST \<lparr>f_username = Some [97], f_password = Some []\<rparr>
     \<lparr>users = [\<lparr>u_id = 1, u_username = [97], u_password_hash = [112], u_created_at = 7\<rparr>],
      chat_records = []\<rparr>
   = (\<lparr>users = [\<lparr>u_id = 1, u_username = [97], u_password_hash = [112], u_created_at = 7\<rparr>],
       chat_records = []\<rparr>, Inr (Text msg_empty_fields, 400))
   \<and> msg_empty_fields \<noteq> msg_username_taken"
  by (simp add: register_def falsy_def msg_empty_fields_def msg_username_taken_def)

text \<open>
  C5 (as amended). In a credential store with unique usernames, for a stored user with
  a non-empty username, login with that user's username and a non-empty password:
  when the hash check returns true, sets the session to \<open>logged_in = True\<close>, the user's
  \<open>username\<close> and the user's \<open>id\<close>, and redirects to the index; when the hash check
  returns false, answers 401 and leaves the session as it was; when the hash check
  raises, lets the exception through and leaves the session as it was. Login with an
  empty or missing password answers 400 by the guard on empty fields, before any hash
  check, and leaves the session as it was.
\<close>

theorem login_credentials:
  assumes "u \<in> set (users db)" and "distinct (map u_username (users db))"
    and "u_username u \<noteq> []"
  shows "(pw \<noteq> [] \<and> checkpw pw (u_password_hash u) = Inr True \<longrightarrow>
            login checkpw POST \<lparr>f_username = Some (u_username u), f_password = Some pw\<rparr> s db
            = (\<lparr>s_logged_in = Some True, s_username = Some (u_username u),
                s_user_id = Some (u_id u)\<rparr>, Inr (Redirect To_index, 302)))
         \<and> (pw \<noteq> [] \<and> checkpw pw (u_password_hash u) = Inr False \<longrightarrow>
            login checkpw POST \<lparr>f_username = Some (u_username u), f_password = Some pw\<rparr> s db
            = (s, Inr (Text msg_wrong_password, 401)))
         \<and> (pw \<noteq> [] \<and> checkpw pw (u_password_hash u) = Inl e \<longrightarrow>
            login checkpw POST \<lparr>f_username = Some (u_username u), f_password = Some pw\<rparr> s db
            = (s, Inl e))
         \<and> login checkpw POST \<lparr>f_username = Some (u_username u), f_password = Some []\<rparr> s db
            = (s, Inr (Text msg_empty_fields, 400))
         \<and> login checkpw POST \<lparr>f_username = Some (u_username u), f_password = None\<rparr> s db
            = (s, Inr (Text msg_empty_fields, 400))"
proof -
  have found: "user_by_name db (u_username u) = Some u"
    using assms(1,2) by (rule user_by_name_stored)
  have accepted: "login checkpw POST
        \<lparr>f_username = Some (u_username u), f_password = Some pw\<rparr> s db
      = (\<lparr>s_logged_in = Some True, s_username = Some (u_username u),
          s_user_id = Some (u_id u)\<rparr>, Inr (Redirect To_index, 302))"
    if "pw \<noteq> [] \<and> checkpw pw (u_password_hash u) = Inr True"
    using that assms(3) found by (simp add: login_def falsy_def)
  have rejected: "login checkpw POST
        \<lparr>f_username = Some (u_username u), f_password = Some pw\<rparr> s db
      = (s, Inr (Text msg_wrong_password, 401))"
    if "pw \<noteq> [] \<and> checkpw pw (u_password_hash u) = Inr False"
    using that assms(3) found by (simp add: login_def falsy_def)
  have raised: "login checkpw POST
        \<lparr>f_username = Some (u_username u), f_password = Some pw\<rparr> s db = (s, Inl e)"
    if "pw \<noteq> [] \<and> checkpw pw (u_password_hash u) = Inl e"
    using that assms(3) found by (simp add: login_def falsy_def)
  have empty: "login checkpw POST
        \<lparr>f_username = Some (u_username u), f_password = Some []\<rparr> s db
      = (s, Inr (Text msg_empty_fields, 400))"
    by (simp add: login_def falsy_def)
  have missing: "login checkpw POST
        \<lparr>f_username = Some (u_username u), f_password = None\<rparr> s db
      = (s, Inr (Text msg_empty_fields, 400))"
    by (simp add: login_def falsy_def)
  from accepted rejected raised empty missing show ?thesis
    by (intro conjI impI)
qed

theorem login_credentials_witness:
  "login (\<lambda>p h. if 72 < length p then Inl (Value_error [76]) else Inr (p = h)) POST
     \<lparr>f_username = Some [97], f_password = Some [112]\<rparr> session_clear
     \<lparr>users = [\<lparr>u_id = 1, u_username = [97], u_password_hash = [112], u_created_at = 7\<rparr>],
      chat_records = []\<rparr>
   = (\<lparr>s_logged_in = Some True, s_username = Some [97], s_user_id = Some 1\<rparr>,
      Inr (Redirect To_index, 302))
   \<and> login (\<lambda>p h. if 72 < length p then Inl (Value_error [76]) else Inr (p = h)) POST
     \<lparr>f_username = Some [97], f_password = Some [120]\<rparr> session_clear
     \<lparr>users = [\<lparr>u_id = 1, u_username = [97], u_password_hash = [112], u_created_at = 7\<rparr>],
      chat_records = []\<rparr>
   = (session_clear, Inr (Text msg_wrong_password, 401))
   \<and> login (\<lambda>p h. if 72 < length p then Inl (Value_error [76]) else Inr (p = h)) POST
     \<lparr>f_username = Some [97], f_password = Some (replicate 73 120)\<rparr> session_clear
     \<lparr>users = [\<lparr>u_id = 1, u_username = [97], u_password_hash = [112], u_created_at = 7\<rparr>],
      chat_records = []\<rparr>
   = (session_clear, Inl (Value_error [76]))
   \<and> login (\<lambda>p h. if 72 < length p then Inl (Value_error [76]) else Inr (p = h)) POST
     \<lparr>f_username = Some [97], f_password = Some []\<rparr> session_clear
     \<lparr>users = [\<lparr>u_id = 1, u_username = [97], u_password_hash = [112], u_created_at = 7\<rparr>],
      chat_records = []\<rparr>
   = (session_clear, Inr (Text msg_empty_fields, 400))"
proof -
  let ?checkpw = "\<lambda>p h :: pystr. if 72 < length p then Inl (Value_error [76]) else Inr (p = h)"
  let ?u = "\<lparr>u_id = 1, u_username = [97], u_password_hash = [112], u_created_at = 7\<rparr>"
  let ?db = "\<lparr>users = [?u], chat_records = []\<rparr>"
  have stored: "?u \<in> set (users ?db)" "distinct (map u_username (users ?db))"
    "u_username ?u \<noteq> []"
    by simp_all
  note facts = login_credentials [OF stored, of _ ?checkpw session_clear]
  have "replicate 73 (120::nat) \<noteq> []" by simp
  with facts [of "[112]" "Value_error [76]"] facts [of "[120]" "Value_error [76]"]
    facts [of "replicate 73 120" "Value_error [76]"]
  show ?thesis by simp
qed

text \<open>
  The claim as stated covers every password whose hash check fails; the empty password
  is one (the check used here returns false on it), and the guard on empty fields
  answers it with 400 before any hash check.
\<close>

theorem login_credentials_counterexample:
  "((\<circ>) Inr \<circ> (=)) [] [112 :: nat] = (Inr False :: exn + bool)
   \<and> login ((\<circ>) Inr \<circ> (=)) POST \<lparr>f_username = Some [97], f_password = Some []\<rparr>
     session_clear
     \<lparr>users = [\<lparr>u_id = 1, u_username = [97], u_password_hash = [112], u_created_at = 7\<rparr>],
      chat_records = []\<rparr>
   = (session_clear, Inr (Text msg_empty_fields, 400))"
  by (simp add: login_def falsy_def)

section \<open>History: the query and its pages\<close>

text \<open>
  The query keeps the session user's rows and nothing else, as a list sorted by
  descending \<open>created_at\<close>; for a positive page size, with offset and limit in the
  engine's integer range, the page is a \<open>take\<close> of a \<open>drop\<close> of that list, and the
  pages cover the list. Out of that range the execution raises.
\<close>

lemma history_query_mset:
  "mset (history_query db uid) = mset (filter (\<lambda>r. c_user_id r = uid) (chat_records db))"
  by (simp add: history_query_def order_by_created_at_desc_def)

lemma history_query_set:
  "set (history_query db uid) = {r \<in> set (chat_records db). c_user_id r = uid}"
  by (simp add: history_query_def order_by_created_at_desc_def)

lemma history_query_length:
  "length (history_query db uid) = length (filter (\<lambda>r. c_user_id r = uid) (chat_records db))"
  by (simp add: history_query_def order_by_created_at_desc_def)

lemma history_query_sorted:
  "sorted_wrt (\<lambda>a b. c_created_at b \<le> c_created_at a) (history_query db uid)"
proof -
  have "sorted (map (\<lambda>r. - c_created_at r) (history_query db uid))"
    by (simp add: history_query_def order_by_created_at_desc_def)
  then show ?thesis by (simp add: sorted_map)
qed

lemma history_query_cong:
  "filter (\<lambda>r. c_user_id r = uid) (chat_records db2)
     = filter (\<lambda>r. c_user_id r = uid) (chat_records db)
   \<Longrightarrow> history_query db2 uid = history_query db uid"
  by (simp add: history_query_def)

lemma history_records_subset:
  "history_records db uid page size' = Inr rows \<Longrightarrow> set rows \<subseteq> set (history_query db uid)"
  by (auto simp: history_records_def sql_limit_def sql_offset_def
      split: if_splits dest: in_set_takeD in_set_dropD)

lemma history_records_positive:
  "0 < size' \<Longrightarrow> sqlite_int size' \<Longrightarrow> sqlite_int ((page - 1) * size')
   \<Longrightarrow> history_records db uid page size'
       = Inr (take (nat size') (drop (nat ((page - 1) * size')) (history_query db uid)))"
  by (simp add: history_records_def sql_limit_def sql_offset_def)

lemma history_records_out_of_range:
  "\<not> sqlite_int size' \<or> \<not> sqlite_int ((page - 1) * size')
   \<Longrightarrow> history_records db uid page size' = Inl Overflow_error"
  by (auto simp: history_records_def sql_limit_def sql_offset_def)

lemma get_chat_history_out_of_range:
  assumes "logged_in s" and "s_user_id s = Some uid"
    and "\<not> sqlite_int (args_get (arg_size args) 10)
         \<or> \<not> sqlite_int ((args_get (arg_page args) 1 - 1) * args_get (arg_size args) 10)"
  shows "get_chat_history strftime s args db = Inl Overflow_error"
  using assms(1,2) history_records_out_of_range [OF assms(3)]
  by (simp add: get_chat_history_def Let_def)

lemma get_chat_history_returns:
  assumes "logged_in s" and "s_user_id s = Some uid" and "args_get (arg_size args) 10 \<noteq> 0"
    and "history_records db uid (args_get (arg_page args) 1) (args_get (arg_size args) 10)
         = Inr rows"
  shows "get_chat_history strftime s args db
         = Inr (Json_history
             \<lparr>hp_records = map (record_dict strftime) rows,
              hp_total = int (length (history_query db uid)),
              hp_total_pages = \<lceil>real (length (history_query db uid))
                                  / real_of_int (args_get (arg_size args) 10)\<rceil>,
              hp_current_page = args_get (arg_page args) 1,
              hp_page_size = args_get (arg_size args) 10\<rparr>, 200)"
  using assms by (simp add: get_chat_history_def ceil_div_def Let_def)

lemma take_drop_nth:
  "k + n \<le> length xs \<Longrightarrow> take n (drop k xs) = map ((!) xs) [k..<k + n]"
  by (rule nth_equalityI) simp_all

lemma paging_covers:
  assumes "x \<in> set xs" and "0 < n"
  shows "\<exists>k. k * n \<le> length xs \<and> x \<in> set (take n (drop (k * n) xs))"
proof -
  from assms(1) obtain i where i: "i < length xs" "xs ! i = x"
    by (auto simp: in_set_conv_nth)
  let ?k = "i div n"
  let ?ys = "take n (drop (?k * n) xs)"
  have split: "?k * n + i mod n = i" by simp
  have "i mod n < n" using assms(2) by simp
  moreover have "i mod n < length xs - ?k * n" using i(1) split by linarith
  ultimately have len: "i mod n < length ?ys" by simp
  have le: "?k * n \<le> length xs" using i(1) split by linarith
  have "?ys ! (i mod n) = drop (?k * n) xs ! (i mod n)"
    using len by simp
  also have "\<dots> = xs ! (?k * n + i mod n)"
    using le by (rule nth_drop)
  also have "\<dots> = x"
    by (simp only: split i(2))
  finally have "?ys ! (i mod n) = x" .
  with len have "x \<in> set ?ys" by (metis nth_mem)
  with le have "?k * n \<le> length xs \<and> x \<in> set ?ys" ..
  then show ?thesis ..
qed

lemma sort_key_append_least:
  assumes "\<forall>x\<in>set xs. f r < f x"
  shows "sort_key f (xs @ [r]) = r # sort_key f xs"
  using assms by (induction xs) (auto simp: sort_key_def)

lemma history_query_newest_first:
  assumes "chat_records db' = chat_records db @ [r]" and "c_user_id r = uid"
    and "\<forall>x\<in>set (chat_records db). c_user_id x = uid \<longrightarrow> c_created_at x < c_created_at r"
  shows "history_query db' uid = r # history_query db uid"
proof -
  let ?own = "filter (\<lambda>x. c_user_id x = uid) (chat_records db)"
  have "\<forall>x\<in>set ?own. - c_created_at r < - c_created_at x"
    using assms(3) by simp
  then have "sort_key (\<lambda>x. - c_created_at x) (?own @ [r])
      = r # sort_key (\<lambda>x. - c_created_at x) ?own"
    by (rule sort_key_append_least)
  moreover have "filter (\<lambda>x. c_user_id x = uid) (chat_records db') = ?own @ [r]"
    using assms(1,2) by simp
  ultimately show ?thesis
    by (simp only: history_query_def order_by_created_at_desc_def)
qed

lemma history_query_page_of:
  assumes "r \<in> set (chat_records db)" and "c_user_id r = uid"
    and "0 < size'" and "sqlite_int size'" and "int (length (chat_records db)) < 2 ^ 63"
  shows "\<exists>page. 1 \<le> page
           \<and> history_records db uid page size'
               = Inr (take (nat size') (drop (nat ((page - 1) * size')) (history_query db uid)))
           \<and> r \<in> set (take (nat size') (drop (nat ((page - 1) * size')) (history_query db uid)))"
proof -
  let ?rows = "history_query db uid"
  have "r \<in> set ?rows"
    using assms(1,2) by (simp add: history_query_set)
  moreover have "0 < nat size'" using assms(3) by simp
  ultimately have "\<exists>k. k * nat size' \<le> length ?rows
      \<and> r \<in> set (take (nat size') (drop (k * nat size') ?rows))"
    by (rule paging_covers)
  then obtain k where le: "k * nat size' \<le> length ?rows"
    and k: "r \<in> set (take (nat size') (drop (k * nat size') ?rows))"
    by (elim exE conjE)
  have offset: "nat ((int k + 1 - 1) * size') = k * nat size'"
    by (simp add: nat_mult_distrib)
  have "length ?rows \<le> length (chat_records db)"
    by (simp add: history_query_length)
  with le have bound: "int (k * nat size') < 2 ^ 63"
    using assms(5) by linarith
  have eq: "int (k * nat size') = (int k + 1 - 1) * size'"
    using assms(3) by simp
  have lt: "(int k + 1 - 1) * size' < 2 ^ 63"
    using bound unfolding eq .
  have ge: "0 \<le> (int k + 1 - 1) * size'"
    using assms(3) by simp
  have "sqlite_int ((int k + 1 - 1) * size')"
    using lt ge by (simp add: sqlite_int_def)
  with assms(3,4) have "history_records db uid (int k + 1) size'
      = Inr (take (nat size') (drop (nat ((int k + 1 - 1) * size')) ?rows))"
    by (rule history_records_positive)
  moreover have "r \<in> set (take (nat size') (drop (nat ((int k + 1 - 1) * size')) ?rows))"
    using k by (simp only: offset)
  moreover have "1 \<le> int k + 1" by simp
  ultimately have "1 \<le> int k + 1
      \<and> history_records db uid (int k + 1) size'
          = Inr (take (nat size') (drop (nat ((int k + 1 - 1) * size')) ?rows))
      \<and> r \<in> set (take (nat size') (drop (nat ((int k + 1 - 1) * size')) ?rows))"
    by (intro conjI)
  then show ?thesis ..
qed

text \<open>
  C2 (as amended). For an authenticated user, every page and every page size of at
  least 1 such that the limit \<open>size\<close> and the offset \<open>(page - 1) * size\<close> are within the
  signed 64-bit range of the engine: \<open>total\<close> is the count of that user's ChatRecords;
  the rows returned are those left after skipping \<open>(page - 1) * size\<close> rows (none when
  that is negative) and taking at most \<open>size\<close>, from the user's records in descending
  order of \<open>created_at\<close>; and \<open>total_pages = ceil(total / size)\<close>. In particular, with
  25 records for the user, \<open>page=2\<close> and \<open>size=10\<close> return the records 11 to 20 of
  that order with \<open>total=25\<close>, \<open>total_pages=3\<close> and \<open>current_page=2\<close>.
\<close>

theorem history_pagination:
  assumes "logged_in s" and "s_user_id s = Some uid" and "0 < size'"
    and "sqlite_int size'" and "sqlite_int ((page - 1) * size')"
  shows "mset (history_query db uid) = mset (filter (\<lambda>r. c_user_id r = uid) (chat_records db))
         \<and> sorted_wrt (\<lambda>a b. c_created_at b \<le> c_created_at a) (history_query db uid)
         \<and> get_chat_history strftime s \<lparr>arg_page = Some page, arg_size = Some size'\<rparr> db
           = Inr (Json_history
               \<lparr>hp_records = map (record_dict strftime)
                   (take (nat size') (drop (nat ((page - 1) * size')) (history_query db uid))),
                hp_total = int (length (filter (\<lambda>r. c_user_id r = uid) (chat_records db))),
                hp_total_pages =
                  \<lceil>real (length (filter (\<lambda>r. c_user_id r = uid) (chat_records db)))
                     / real_of_int size'\<rceil>,
                hp_current_page = page,
                hp_page_size = size'\<rparr>, 200)
         \<and> (length (filter (\<lambda>r. c_user_id r = uid) (chat_records db)) = 25 \<longrightarrow>
              get_chat_history strftime s \<lparr>arg_page = Some 2, arg_size = Some 10\<rparr> db
              = Inr (Json_history
                  \<lparr>hp_records = map (record_dict strftime)
                      (map ((!) (history_query db uid)) [10..<20]),
                   hp_total = 25, hp_total_pages = 3, hp_current_page = 2,
                   hp_page_size = 10\<rparr>, 200))"
proof -
  let ?own = "filter (\<lambda>r. c_user_id r = uid) (chat_records db)"
  let ?rows = "history_query db uid"
  have page: "history_records db uid page size'
      = Inr (take (nat size') (drop (nat ((page - 1) * size')) ?rows))"
    using assms(3-5) by (rule history_records_positive)
  have general: "get_chat_history strftime s \<lparr>arg_page = Some page, arg_size = Some size'\<rparr> db
      = Inr (Json_history
          \<lparr>hp_records = map (record_dict strftime)
              (take (nat size') (drop (nat ((page - 1) * size')) ?rows)),
           hp_total = int (length ?own),
           hp_total_pages = \<lceil>real (length ?own) / real_of_int size'\<rceil>,
           hp_current_page = page, hp_page_size = size'\<rparr>, 200)"
    using assms(1-3) page
    by (simp add: get_chat_history_returns args_get_def history_query_length)
  have example: "get_chat_history strftime s \<lparr>arg_page = Some 2, arg_size = Some 10\<rparr> db
      = Inr (Json_history
          \<lparr>hp_records = map (record_dict strftime) (map ((!) ?rows) [10..<20]),
           hp_total = 25, hp_total_pages = 3, hp_current_page = 2, hp_page_size = 10\<rparr>, 200)"
    if len: "length ?own = 25"
  proof -
    have "length ?rows = 25" using len by (simp add: history_query_length)
    then have "take 10 (drop 10 ?rows) = map ((!) ?rows) [10..<10 + 10]"
      by (intro take_drop_nth) simp
    moreover have "history_records db uid 2 10
        = Inr (take (nat 10) (drop (nat ((2 - 1) * 10)) ?rows))"
      by (rule history_records_positive) (simp_all add: sqlite_int_def)
    ultimately have "history_records db uid 2 10 = Inr (map ((!) ?rows) [10..<20])"
      by simp
    moreover have "\<lceil>real (25::nat) / real_of_int 10\<rceil> = 3" by simp
    ultimately show ?thesis
      using assms(1,2) len
      by (simp add: get_chat_history_returns args_get_def history_query_length)
  qed
  from general example history_query_mset [of db uid] history_query_sorted [of db uid]
  show ?thesis by (intro conjI impI)
qed

theorem history_pagination_witness:
  "get_chat_history (replicate 1 \<circ> nat)
     \<lparr>s_logged_in = Some True, s_username = Some [97], s_user_id = Some 1\<rparr>
     \<lparr>arg_page = Some 2, arg_size = Some 10\<rparr>
     \<lparr>users = [], chat_records =
        map (\<lambda>i. \<lparr>c_id = int i, c_user_id = int (i mod 2) + 1, c_question = [i],
                  c_answer = [i + 1], c_created_at = int i\<rparr>) [1..<51]\<rparr>
   = Inr (Json_history
       \<lparr>hp_records =
          map (\<lambda>i. \<lparr>h_id = int i, h_question = [i], h_answer = [i + 1], h_created_at = [i]\<rparr>)
            [30, 28, 26, 24, 22, 20, 18, 16, 14, 12],
        hp_total = 25, hp_total_pages = 3, hp_current_page = 2, hp_page_size = 10\<rparr>, 200)"
proof -
  let ?db = "\<lparr>users = [], chat_records =
        map (\<lambda>i. \<lparr>c_id = int i, c_user_id = int (i mod 2) + 1, c_question = [i],
                  c_answer = [i + 1], c_created_at = int i\<rparr>) [1..<51]\<rparr>"
  let ?s = "\<lparr>s_logged_in = Some True, s_username = Some [97], s_user_id = Some 1\<rparr>"
  have rows: "history_query ?db 1
      = map (\<lambda>i. \<lparr>c_id = int i, c_user_id = 1, c_question = [i], c_answer = [i + 1],
                  c_created_at = int i\<rparr>)
          [50, 48, 46, 44, 42, 40, 38, 36, 34, 32, 30, 28, 26, 24, 22, 20, 18, 16, 14, 12,
           10, 8, 6, 4, 2]"
    by code_simp
  have "length (history_query ?db 1) = 25"
    unfolding rows by simp
  then have own: "length (filter (\<lambda>r. c_user_id r = 1) (chat_records ?db)) = 25"
    by (simp only: history_query_length)
  have "logged_in ?s" and "s_user_id ?s = Some 1" and "(0::int) < 10"
    and "sqlite_int 10" and "sqlite_int ((2 - 1) * 10)"
    by (simp_all add: logged_in_def sqlite_int_def)
  from history_pagination [OF this, of ?db "replicate 1 \<circ> nat"] own
  have "get_chat_history (replicate 1 \<circ> nat) ?s \<lparr>arg_page = Some 2, arg_size = Some 10\<rparr> ?db
      = Inr (Json_history
          \<lparr>hp_records = map (record_dict (replicate 1 \<circ> nat))
              (map ((!) (history_query ?db 1)) [10..<20]),
           hp_total = 25, hp_total_pages = 3, hp_current_page = 2, hp_page_size = 10\<rparr>, 200)"
    by blast
  then show ?thesis
    unfolding rows by (simp add: record_dict_def)
qed

text \<open>
  The claim as stated covers every page size; with \<open>size=0\<close> the handler returns no
  page at all (and beyond the engine's integer range, as \<open>get_chat_history_out_of_range\<close>
  shows, it returns none either).
\<close>

theorem history_pagination_counterexample:
  "logged_in \<lparr>s_logged_in = Some True, s_username = Some [97], s_user_id = Some 1\<rparr>
   \<and> get_chat_history (replicate 1 \<circ> nat)
        \<lparr>s_logged_in = Some True, s_username = Some [97], s_user_id = Some 1\<rparr>
        \<lparr>arg_page = Some 2, arg_size = Some 0\<rparr>
        \<lparr>users = [], chat_records =
          [\<lparr>c_id = 1, c_user_id = 1, c_question = [104], c_answer = [105],
            c_created_at = 7\<rparr>]\<rparr>
      = Inl Zero_division_error"
  by (simp add: get_chat_history_def history_records_def sql_offset_def sql_limit_def
      sqlite_int_def logged_in_def args_get_def ceil_div_def Let_def)

text \<open>
  C3. For an authenticated session, every record in a \<open>/history\<close> response is the
  rendering of a ChatRecord of the database whose \<open>user_id\<close> is the session's user id;
  and the response is the same for any two databases that agree on the session user's
  records, whatever the other users' records are.
\<close>

theorem history_only_own_records:
  assumes "logged_in s" and "s_user_id s = Some uid"
  shows "(\<forall>hp st. get_chat_history strftime s args db = Inr (Json_history hp, st) \<longrightarrow>
            (\<exists>rows. history_records db uid (args_get (arg_page args) 1)
                       (args_get (arg_size args) 10) = Inr rows
               \<and> hp_records hp = map (record_dict strftime) rows
               \<and> (\<forall>r\<in>set rows. r \<in> set (chat_records db) \<and> c_user_id r = uid)))
         \<and> (\<forall>db2. filter (\<lambda>r. c_user_id r = uid) (chat_records db2)
                  = filter (\<lambda>r. c_user_id r = uid) (chat_records db) \<longrightarrow>
                get_chat_history strftime s args db2 = get_chat_history strftime s args db)"
proof -
  let ?page = "args_get (arg_page args) 1"
  let ?size = "args_get (arg_size args) 10"
  have own: "\<forall>r\<in>set rows. r \<in> set (chat_records db) \<and> c_user_id r = uid"
    if "history_records db uid ?page ?size = Inr rows" for rows
    using history_records_subset [OF that] by (auto simp: history_query_set)
  have shape: "\<exists>rows. history_records db uid ?page ?size = Inr rows
        \<and> hp_records hp = map (record_dict strftime) rows
        \<and> (\<forall>r\<in>set rows. r \<in> set (chat_records db) \<and> c_user_id r = uid)"
    if ret: "get_chat_history strftime s args db = Inr (Json_history hp, st)" for hp st
  proof (cases "history_records db uid ?page ?size")
    case (Inl e)
    with ret assms show ?thesis
      by (simp add: get_chat_history_def Let_def)
  next
    case (Inr rows)
    with ret assms have "hp_records hp = map (record_dict strftime) rows"
      by (auto simp: get_chat_history_def ceil_div_def Let_def split: if_splits)
    with Inr own [OF Inr] show ?thesis by simp
  qed
  have same: "get_chat_history strftime s args db2 = get_chat_history strftime s args db"
    if "filter (\<lambda>r. c_user_id r = uid) (chat_records db2)
          = filter (\<lambda>r. c_user_id r = uid) (chat_records db)" for db2
    using assms history_query_cong [OF that]
    by (simp add: get_chat_history_def history_records_def Let_def)
  from shape same show ?thesis by (intro conjI allI impI)
qed

theorem history_only_own_records_witness:
  "get_chat_history (replicate 1 \<circ> nat)
     \<lparr>s_logged_in = Some True, s_username = Some [97], s_user_id = Some 1\<rparr>
     \<lparr>arg_page = Some 1, arg_size = Some 2\<rparr>
     \<lparr>users = [], chat_records =
        [\<lparr>c_id = 1, c_user_id = 1, c_question = [104], c_answer = [105], c_created_at = 7\<rparr>,
         \<lparr>c_id = 2, c_user_id = 2, c_question = [106], c_answer = [107], c_created_at = 8\<rparr>,
         \<lparr>c_id = 3, c_user_id = 2, c_question = [108], c_answer = [109], c_created_at = 9\<rparr>]\<rparr>
   = get_chat_history (replicate 1 \<circ> nat)
     \<lparr>s_logged_in = Some True, s_username = Some [97], s_user_id = Some 1\<rparr>
     \<lparr>arg_page = Some 1, arg_size = Some 2\<rparr>
     \<lparr>users = [], chat_records =
        [\<lparr>c_id = 1, c_user_id = 1, c_question = [104], c_answer = [105], c_created_at = 7\<rparr>]\<rparr>"
proof -
  let ?s = "\<lparr>s_logged_in = Some True, s_username = Some [97], s_user_id = Some 1\<rparr>"
  let ?db = "\<lparr>users = [], chat_records =
        [\<lparr>c_id = 1, c_user_id = 1, c_question = [104], c_answer = [105], c_created_at = 7\<rparr>]\<rparr>"
  let ?db2 = "\<lparr>users = [], chat_records =
        [\<lparr>c_id = 1, c_user_id = 1, c_question = [104], c_answer = [105], c_created_at = 7\<rparr>,
         \<lparr>c_id = 2, c_user_id = 2, c_question = [106], c_answer = [107], c_created_at = 8\<rparr>,
         \<lparr>c_id = 3, c_user_id = 2, c_question = [108], c_answer = [109], c_created_at = 9\<rparr>]\<rparr>"
  have auth: "logged_in ?s" "s_user_id ?s = Some 1"
    by (simp_all add: logged_in_def)
  have agree: "filter (\<lambda>r. c_user_id r = 1) (chat_records ?db2)
      = filter (\<lambda>r. c_user_id r = 1) (chat_records ?db)"
    by simp
  from history_only_own_records [OF auth, of "replicate 1 \<circ> nat"
      "\<lparr>arg_page = Some 1, arg_size = Some 2\<rparr>" ?db]
  have "\<forall>db2. filter (\<lambda>r. c_user_id r = 1) (chat_records db2)
            = filter (\<lambda>r. c_user_id r = 1) (chat_records ?db) \<longrightarrow>
          get_chat_history (replicate 1 \<circ> nat) ?s \<lparr>arg_page = Some 1, arg_size = Some 2\<rparr> db2
          = get_chat_history (replicate 1 \<circ> nat) ?s \<lparr>arg_page = Some 1, arg_size = Some 2\<rparr> ?db"
    by (rule conjunct2)
  from this [THEN spec, of ?db2, THEN mp, OF agree] show ?thesis .
qed

section \<open>Chat, then history\<close>

lemma chat_reply_inversion:
  assumes "chat completion commit now s (Json_dict (Msg_str msg)) db
           = (db', calls, Inr (Json_reply reply, st))"
    and "s_user_id s = Some uid"
  shows "db' = db\<lparr>chat_records := chat_records db @
                 [\<lparr>c_id = next_id (map c_id (chat_records db)), c_user_id = uid,
                   c_question = strip msg, c_answer = reply, c_created_at = now\<rparr>]\<rparr>
         \<and> calls = [strip msg] \<and> st = 200 \<and> strip msg \<noteq> []"
proof -
  have auth: "logged_in s"
    using assms(1) by (cases "logged_in s") (simp_all add: chat_def)
  have ne: "strip msg \<noteq> []"
    using assms(1) auth by (cases "strip msg = []") (simp_all add: chat_def)
  obtain content where content: "completion (strip msg) = Api_content content"
    using assms(1) auth ne by (cases "completion (strip msg)") (simp_all add: chat_def Let_def)
  have ok: "commit = Committed"
    using assms auth ne content by (cases commit) (simp_all add: chat_def Let_def)
  have "chat completion commit now s (Json_dict (Msg_str msg)) db
      = (db\<lparr>chat_records := chat_records db @
              [\<lparr>c_id = next_id (map c_id (chat_records db)), c_user_id = uid,
                c_question = strip msg, c_answer = strip content, c_created_at = now\<rparr>]\<rparr>,
         [strip msg], Inr (Json_reply (strip content), 200))"
    using assms(2) auth ne content ok by (simp add: chat_def Let_def)
  with assms(1) ne show ?thesis by auto
qed

text \<open>
  C4. Round trip: when \<open>/chat\<close> has answered with a reply, the table has one more row,
  whose rendering carries the trimmed message as \<open>question\<close> and the reply as \<open>answer\<close>.
  In every later database that still holds the rows of that moment (a table of fewer
  than \<open>2 ^ 63\<close> rows), and for every positive page size within the engine's integer
  range, some page of the user's \<open>/history\<close> contains that rendering; and
  when the clock reading of the insert is later than the \<open>created_at\<close> of the user's
  earlier records, it is the first record of \<open>/history\<close> called without parameters
  right after the chat.
\<close>

theorem chat_history_round_trip:
  assumes "logged_in s" and "s_user_id s = Some uid"
    and "chat completion commit now s (Json_dict (Msg_str msg)) db
         = (db', calls, Inr (Json_reply reply, st))"
  shows "chat_records db' = chat_records db @ [last (chat_records db')]
         \<and> h_question (record_dict strftime (last (chat_records db'))) = strip msg
         \<and> h_answer (record_dict strftime (last (chat_records db'))) = reply
         \<and> (\<forall>db2 size'. set (chat_records db') \<subseteq> set (chat_records db2)
                \<and> int (length (chat_records db2)) < 2 ^ 63
                \<and> 0 < size' \<and> sqlite_int size' \<longrightarrow>
              (\<exists>page hp. 1 \<le> page
                 \<and> get_chat_history strftime s \<lparr>arg_page = Some page, arg_size = Some size'\<rparr> db2
                   = Inr (Json_history hp, 200)
                 \<and> record_dict strftime (last (chat_records db')) \<in> set (hp_records hp)))
         \<and> ((\<forall>x\<in>set (chat_records db). c_user_id x = uid \<longrightarrow> c_created_at x < now) \<longrightarrow>
              get_chat_history strftime s \<lparr>arg_page = None, arg_size = None\<rparr> db'
              = Inr (Json_history
                  \<lparr>hp_records = record_dict strftime (last (chat_records db'))
                     # map (record_dict strftime) (take 9 (history_query db uid)),
                   hp_total = int (length (history_query db uid)) + 1,
                   hp_total_pages = \<lceil>real (length (history_query db uid) + 1) / 10\<rceil>,
                   hp_current_page = 1, hp_page_size = 10\<rparr>, 200))"
proof -
  let ?r = "\<lparr>c_id = next_id (map c_id (chat_records db)), c_user_id = uid,
            c_question = strip msg, c_answer = reply, c_created_at = now\<rparr>"
  have db': "chat_records db' = chat_records db @ [?r]"
    using chat_reply_inversion [OF assms(3,2)] by simp
  then have last: "last (chat_records db') = ?r" by simp
  have appended: "chat_records db' = chat_records db @ [last (chat_records db')]"
    using db' by simp
  have question: "h_question (record_dict strftime (last (chat_records db'))) = strip msg"
    and answer: "h_answer (record_dict strftime (last (chat_records db'))) = reply"
    by (simp_all add: last record_dict_def)
  have later: "\<forall>db2 size'. set (chat_records db') \<subseteq> set (chat_records db2)
        \<and> int (length (chat_records db2)) < 2 ^ 63
        \<and> 0 < size' \<and> sqlite_int size' \<longrightarrow>
      (\<exists>page hp. 1 \<le> page
        \<and> get_chat_history strftime s \<lparr>arg_page = Some page, arg_size = Some size'\<rparr> db2
          = Inr (Json_history hp, 200)
        \<and> record_dict strftime (last (chat_records db')) \<in> set (hp_records hp))"
  proof (intro allI impI)
    fix db2 :: database and size' :: int
    assume later: "set (chat_records db') \<subseteq> set (chat_records db2)
        \<and> int (length (chat_records db2)) < 2 ^ 63
        \<and> 0 < size' \<and> sqlite_int size'"
    then have kept: "set (chat_records db') \<subseteq> set (chat_records db2)"
      and rows: "int (length (chat_records db2)) < 2 ^ 63"
      and pos: "0 < size'" and range: "sqlite_int size'"
      by blast+
    have "?r \<in> set (chat_records db')" using db' by simp
    with kept have "?r \<in> set (chat_records db2)" by (simp add: subset_iff)
    moreover have "c_user_id ?r = uid" by simp
    ultimately have "\<exists>page. 1 \<le> page
        \<and> history_records db2 uid page size'
            = Inr (take (nat size') (drop (nat ((page - 1) * size')) (history_query db2 uid)))
        \<and> ?r \<in> set (take (nat size') (drop (nat ((page - 1) * size'))
              (history_query db2 uid)))"
      using pos range rows by (rule history_query_page_of)
    then obtain page where page: "1 \<le> page"
      "history_records db2 uid page size'
        = Inr (take (nat size') (drop (nat ((page - 1) * size')) (history_query db2 uid)))"
      "?r \<in> set (take (nat size') (drop (nat ((page - 1) * size')) (history_query db2 uid)))"
      by (elim exE conjE)
    let ?args = "\<lparr>arg_page = Some page, arg_size = Some size'\<rparr>"
    let ?rows = "take (nat size') (drop (nat ((page - 1) * size')) (history_query db2 uid))"
    let ?hp = "\<lparr>hp_records = map (record_dict strftime) ?rows,
               hp_total = int (length (history_query db2 uid)),
               hp_total_pages = \<lceil>real (length (history_query db2 uid)) / real_of_int size'\<rceil>,
               hp_current_page = page, hp_page_size = size'\<rparr>"
    have nonzero: "args_get (arg_size ?args) 10 \<noteq> 0" using pos by (simp add: args_get_def)
    have records: "history_records db2 uid (args_get (arg_page ?args) 1)
        (args_get (arg_size ?args) 10) = Inr ?rows"
      using page(2) by (simp add: args_get_def)
    from get_chat_history_returns [OF assms(1,2) nonzero records, of strftime]
    have "get_chat_history strftime s ?args db2 = Inr (Json_history ?hp, 200)"
      by (simp add: args_get_def)
    moreover have "record_dict strftime (last (chat_records db')) \<in> set (hp_records ?hp)"
      using page(3) by (simp add: last)
    ultimately have "1 \<le> page
        \<and> get_chat_history strftime s ?args db2 = Inr (Json_history ?hp, 200)
        \<and> record_dict strftime (last (chat_records db')) \<in> set (hp_records ?hp)"
      using page(1) by simp
    then show "\<exists>page hp. 1 \<le> page
        \<and> get_chat_history strftime s \<lparr>arg_page = Some page, arg_size = Some size'\<rparr> db2
          = Inr (Json_history hp, 200)
        \<and> record_dict strftime (last (chat_records db')) \<in> set (hp_records hp)"
      by (intro exI)
  qed
  have first: "(\<forall>x\<in>set (chat_records db). c_user_id x = uid \<longrightarrow> c_created_at x < now) \<longrightarrow>
      get_chat_history strftime s \<lparr>arg_page = None, arg_size = None\<rparr> db'
      = Inr (Json_history
          \<lparr>hp_records = record_dict strftime (last (chat_records db'))
             # map (record_dict strftime) (take 9 (history_query db uid)),
           hp_total = int (length (history_query db uid)) + 1,
           hp_total_pages = \<lceil>real (length (history_query db uid) + 1) / 10\<rceil>,
           hp_current_page = 1, hp_page_size = 10\<rparr>, 200)"
  proof
    assume clock: "\<forall>x\<in>set (chat_records db). c_user_id x = uid \<longrightarrow> c_created_at x < now"
    have "history_query db' uid = ?r # history_query db uid"
      using db' by (rule history_query_newest_first) (simp_all add: clock)
    then have q: "history_query db' uid = last (chat_records db') # history_query db uid"
      by (simp only: last)
    have "history_records db' uid 1 10
        = Inr (take (nat 10) (drop (nat ((1 - 1) * 10)) (history_query db' uid)))"
      by (rule history_records_positive) (simp_all add: sqlite_int_def)
    then have recs: "history_records db' uid 1 10
        = Inr (last (chat_records db') # take 9 (history_query db uid))"
      by (simp add: q take_Cons')
    let ?args = "\<lparr>arg_page = None, arg_size = None\<rparr>"
    have nonzero: "args_get (arg_size ?args) 10 \<noteq> 0" by (simp add: args_get_def)
    have "history_records db' uid (args_get (arg_page ?args) 1)
        (args_get (arg_size ?args) 10)
        = Inr (last (chat_records db') # take 9 (history_query db uid))"
      using recs by (simp add: args_get_def)
    from get_chat_history_returns [OF assms(1,2) nonzero this, of strftime]
    show "get_chat_history strftime s ?args db'
      = Inr (Json_history
          \<lparr>hp_records = record_dict strftime (last (chat_records db'))
             # map (record_dict strftime) (take 9 (history_query db uid)),
           hp_total = int (length (history_query db uid)) + 1,
           hp_total_pages = \<lceil>real (length (history_query db uid) + 1) / 10\<rceil>,
           hp_current_page = 1, hp_page_size = 10\<rparr>, 200)"
      by (simp add: args_get_def q)
  qed
  from appended question answer later first show ?thesis
    by (intro conjI)
qed

theorem chat_history_round_trip_witness:
  "get_chat_history (replicate 1 \<circ> nat)
     \<lparr>s_logged_in = Some True, s_username = Some [97], s_user_id = Some 1\<rparr>
     \<lparr>arg_page = None, arg_size = None\<rparr>
     (fst (chat Api_content Committed 9
        \<lparr>s_logged_in = Some True, s_username = Some [97], s_user_id = Some 1\<rparr>
        (Json_dict (Msg_str [32, 104, 105]))
        \<lparr>users = [], chat_records =
          [\<lparr>c_id = 1, c_user_id = 1, c_question = [113], c_answer = [97], c_created_at = 7\<rparr>,
           \<lparr>c_id = 2, c_user_id = 2, c_question = [114], c_answer = [98],
             c_created_at = 20\<rparr>]\<rparr>))
   = Inr (Json_history
       \<lparr>hp_records =
          [\<lparr>h_id = 3, h_question = [104, 105], h_answer = [104, 105], h_created_at = [9]\<rparr>,
           \<lparr>h_id = 1, h_question = [113], h_answer = [97], h_created_at = [7]\<rparr>],
        hp_total = 2, hp_total_pages = 1, hp_current_page = 1, hp_page_size = 10\<rparr>, 200)"
proof -
  let ?s = "\<lparr>s_logged_in = Some True, s_username = Some [97], s_user_id = Some 1\<rparr>"
  let ?db = "\<lparr>users = [], chat_records =
          [\<lparr>c_id = 1, c_user_id = 1, c_question = [113], c_answer = [97], c_created_at = 7\<rparr>,
           \<lparr>c_id = 2, c_user_id = 2, c_question = [114], c_answer = [98],
             c_created_at = 20\<rparr>]\<rparr>"
  let ?db' = "\<lparr>users = [], chat_records =
          [\<lparr>c_id = 1, c_user_id = 1, c_question = [113], c_answer = [97], c_created_at = 7\<rparr>,
           \<lparr>c_id = 2, c_user_id = 2, c_question = [114], c_answer = [98], c_created_at = 20\<rparr>,
           \<lparr>c_id = 3, c_user_id = 1, c_question = [104, 105], c_answer = [104, 105],
             c_created_at = 9\<rparr>]\<rparr>"
  have auth: "logged_in ?s" "s_user_id ?s = Some 1"
    by (simp_all add: logged_in_def)
  have run: "chat Api_content Committed 9 ?s (Json_dict (Msg_str [32, 104, 105])) ?db
      = (?db', [[104, 105]], Inr (Json_reply [104, 105], 200))"
    by (simp add: chat_def logged_in_def strip_def isspace_def next_id_def Let_def)
  have clock: "\<forall>x\<in>set (chat_records ?db). c_user_id x = 1 \<longrightarrow> c_created_at x < 9"
    by simp
  have rows: "history_query ?db 1
      = [\<lparr>c_id = 1, c_user_id = 1, c_question = [113], c_answer = [97], c_created_at = 7\<rparr>]"
    by (simp add: history_query_def order_by_created_at_desc_def)
  from chat_history_round_trip [OF auth run, of "replicate 1 \<circ> nat"] clock
  have "get_chat_history (replicate 1 \<circ> nat) ?s \<lparr>arg_page = None, arg_size = None\<rparr> ?db'
      = Inr (Json_history
          \<lparr>hp_records = record_dict (replicate 1 \<circ> nat) (last (chat_records ?db'))
             # map (record_dict (replicate 1 \<circ> nat)) (take 9 (history_query ?db 1)),
           hp_total = int (length (history_query ?db 1)) + 1,
           hp_total_pages = \<lceil>real (length (history_query ?db 1) + 1) / 10\<rceil>,
           hp_current_page = 1, hp_page_size = 10\<rparr>, 200)"
    by (elim conjE impE)
  moreover have "\<lceil>(1::real) / 5\<rceil> = 1"
    by (simp add: ceiling_eq_iff)
  ultimately show ?thesis
    unfolding run rows by (simp add: record_dict_def)
qed

end
